theory Spec2Isabelle
  imports Main
begin

section \<open>The client package: construction options, connection and service registry\<close>

text \<open>
  A shallow embedding of \<^verbatim>\<open>pkg/client/client.go\<close>. Calls that leave the file (the
  token-source initializer supplied by the caller, \<^verbatim>\<open>transportCredentials\<close>,
  \<^verbatim>\<open>grpc.DialContext\<close>, the generated stub constructors) may have effects. They are
  functions on an external world of an arbitrary type \<open>'w\<close>: each takes the world and
  returns its result with the world after the call. A Go result pair \<^verbatim>\<open>(v, err)\<close> is a
  sum: \<open>Inl err\<close> when \<^verbatim>\<open>err != nil\<close>, \<open>Inr v\<close> otherwise. A nil pointer, interface or
  function value is \<open>None\<close>.
\<close>

subsection \<open>Data\<close>

type_synonym Context = string

datatype error = Error string

datatype panic = Panic string

text \<open>\<^verbatim>\<open>oauth2.TokenSource\<close>: an interface with the one method \<^verbatim>\<open>Token()\<close>.\<close>

type_synonym 'w TokenSource = "'w \<Rightarrow> (error + string) \<times> 'w"

text \<open>
  \<^verbatim>\<open>TokenSourceInitializer\<close>: called with the context and the issuer origin, it returns
  a token source (which Go allows to be nil) or an error.
\<close>

type_synonym 'w TokenSourceInitializer =
  "Context \<Rightarrow> string \<Rightarrow> 'w \<Rightarrow> (error + 'w TokenSource option) \<times> 'w"

text \<open>The struct \<^verbatim>\<open>cred\<close>, built in \<^verbatim>\<open>newConnection\<close> with these two fields.\<close>

record 'w cred =
  tls :: bool
  tokenSource :: "'w TokenSource option"

datatype TransportCredentials = TransportCredentials string

text \<open>
  \<^verbatim>\<open>grpc.DialOption\<close>: the two options \<^verbatim>\<open>newConnection\<close> builds itself, and any
  other option a caller passes in, which the client hands on unread.
\<close>

datatype 'w DialOption =
    WithTransportCredentials TransportCredentials
  | WithPerRPCCredentials "'w cred"
  | CallerDialOption string

record 'w clientOptions =
  initTokenSource :: "'w TokenSourceInitializer option"
  grpcDialOptions :: "'w DialOption list"

type_synonym 'w Option = "'w clientOptions \<Rightarrow> 'w clientOptions"

text \<open>
  \<^verbatim>\<open>*zitadel.Zitadel\<close> is declared outside this file. The client only reads it through
  five methods, so the record holds what each of them returns.
\<close>

record Zitadel =
  Origin :: string
  Domain :: string
  Host :: string
  IsTLS :: bool
  IsInsecureSkipVerifyTLS :: bool

text \<open>\<^verbatim>\<open>*grpc.ClientConn\<close>: a handle, told apart only by its identity.\<close>

type_synonym ClientConn = nat

datatype service =
    SystemSvc | AdminSvc | ManagementSvc | UserSvc | UserSvcV2 | AuthSvc
  | SettingsSvc | SettingsSvcV2 | SessionSvc | SessionSvcV2
  | OrganizationSvc | OrganizationSvcV2 | OIDCSvc | OIDCSvcV2

text \<open>
  The functions the file calls and does not define. \<open>NewServiceClient svc\<close> stands for the
  generated constructor of service \<open>svc\<close> (\<^verbatim>\<open>admin.NewAdminServiceClient\<close> and its
  thirteen siblings). A constructor returns a pointer to a new stub, never nil, and has
  no error result, so the only way it can fail is a panic, \<open>Inl\<close> here. Panics of the
  other collaborators leave \<^verbatim>\<open>New\<close> without a result and are not modelled.
\<close>

record ('w, 'stub) env =
  transportCredentials :: "string \<Rightarrow> bool \<Rightarrow> bool \<Rightarrow> 'w \<Rightarrow> (error + TransportCredentials) \<times> 'w"
  DialContext :: "Context \<Rightarrow> string \<Rightarrow> 'w DialOption list \<Rightarrow> 'w \<Rightarrow> (error + ClientConn) \<times> 'w"
  NewServiceClient :: "service \<Rightarrow> ClientConn \<Rightarrow> 'w \<Rightarrow> (panic + 'stub) \<times> 'w"

subsection \<open>Options\<close>

definition WithAuth :: "'w TokenSourceInitializer option \<Rightarrow> 'w Option" where
  "WithAuth init = (\<lambda>c. c\<lparr>initTokenSource := init\<rparr>)"

definition WithGRPCDialOptions :: "'w DialOption list \<Rightarrow> 'w Option" where
  "WithGRPCDialOptions opts = (\<lambda>c. c\<lparr>grpcDialOptions := grpcDialOptions c @ opts\<rparr>)"

text \<open>The zero value of \<^verbatim>\<open>clientOptions\<close>: a nil function and a nil slice.\<close>

definition zero_clientOptions :: "'w clientOptions" where
  "zero_clientOptions = \<lparr>initTokenSource = None, grpcDialOptions = []\<rparr>"

text \<open>The loop \<^verbatim>\<open>for _, o := range opts { o(&options) }\<close> of \<^verbatim>\<open>New\<close>.\<close>

fun apply_options :: "'w Option list \<Rightarrow> 'w clientOptions \<Rightarrow> 'w clientOptions" where
  "apply_options [] c = c"
| "apply_options (opt # opts) c = apply_options opts (opt c)"

subsection \<open>Building the connection\<close>

text \<open>The credential value \<^verbatim>\<open>&cred{tls: zitadel.IsTLS(), tokenSource: tokenSource}\<close>.\<close>

definition injector :: "Zitadel \<Rightarrow> 'w TokenSource option \<Rightarrow> 'w cred" where
  "injector z ts = \<lparr>tls = IsTLS z, tokenSource = ts\<rparr>"

text \<open>The slice \<^verbatim>\<open>dialOptions\<close> of \<^verbatim>\<open>newConnection\<close>, after the append.\<close>

definition dialOptions ::
  "Zitadel \<Rightarrow> TransportCredentials \<Rightarrow> 'w TokenSource option \<Rightarrow> 'w DialOption list \<Rightarrow> 'w DialOption list"
where
  "dialOptions z transportCreds ts opts =
     [WithTransportCredentials transportCreds, WithPerRPCCredentials (injector z ts)] @ opts"

definition newConnection ::
  "('w, 'stub) env \<Rightarrow> Context \<Rightarrow> Zitadel \<Rightarrow> 'w TokenSource option \<Rightarrow> 'w DialOption list \<Rightarrow> 'w
     \<Rightarrow> (error + ClientConn) \<times> 'w"
where
  "newConnection env ctx z ts opts w =
     (case transportCredentials env (Domain z) (IsTLS z) (IsInsecureSkipVerifyTLS z) w of
        (Inl err, w1) \<Rightarrow> (Inl err, w1)
      | (Inr transportCreds, w1) \<Rightarrow>
          DialContext env ctx (Host z) (dialOptions z transportCreds ts opts) w1)"

subsection \<open>The client and its construction\<close>

text \<open>
  \<^verbatim>\<open>clientOnce\<close>: one \<^verbatim>\<open>sync.Once\<close> per service. Run by one caller at a time, a
  \<^verbatim>\<open>sync.Once\<close> is its done flag. The fields carry the prefix \<open>once_\<close>, as the
  fields of \<^verbatim>\<open>Client\<close> have the same names.
\<close>

record clientOnce =
  once_systemService :: bool
  once_adminService :: bool
  once_managementService :: bool
  once_userService :: bool
  once_userServiceV2 :: bool
  once_authService :: bool
  once_settingsService :: bool
  once_settingsServiceV2 :: bool
  once_sessionService :: bool
  once_sessionServiceV2 :: bool
  once_organizationService :: bool
  once_organizationServiceV2 :: bool
  once_oidcService :: bool
  once_oidcServiceV2 :: bool

text \<open>\<^verbatim>\<open>Client\<close>: the connection, the guards, and one stub field per service (nil until set).\<close>

record 'stub Client =
  connection :: ClientConn
  once :: clientOnce
  systemService :: "'stub option"
  adminService :: "'stub option"
  managementService :: "'stub option"
  userService :: "'stub option"
  userServiceV2 :: "'stub option"
  authService :: "'stub option"
  settingsService :: "'stub option"
  settingsServiceV2 :: "'stub option"
  sessionService :: "'stub option"
  sessionServiceV2 :: "'stub option"
  organizationService :: "'stub option"
  organizationServiceV2 :: "'stub option"
  oidcService :: "'stub option"
  oidcServiceV2 :: "'stub option"

definition zero_clientOnce :: clientOnce where
  "zero_clientOnce =
     \<lparr>once_systemService = False, once_adminService = False, once_managementService = False,
      once_userService = False, once_userServiceV2 = False, once_authService = False,
      once_settingsService = False, once_settingsServiceV2 = False,
      once_sessionService = False, once_sessionServiceV2 = False,
      once_organizationService = False, once_organizationServiceV2 = False,
      once_oidcService = False, once_oidcServiceV2 = False\<rparr>"

text \<open>The literal \<^verbatim>\<open>&Client{connection: conn}\<close>: every other field has its zero value.\<close>

definition new_Client :: "ClientConn \<Rightarrow> 'stub Client" where
  "new_Client conn =
     \<lparr>connection = conn, once = zero_clientOnce,
      systemService = None, adminService = None, managementService = None,
      userService = None, userServiceV2 = None, authService = None,
      settingsService = None, settingsServiceV2 = None,
      sessionService = None, sessionServiceV2 = None,
      organizationService = None, organizationServiceV2 = None,
      oidcService = None, oidcServiceV2 = None\<rparr>"

text \<open>
  The part of \<^verbatim>\<open>New\<close> after the token source is known: build the connection and wrap
  it. \<open>Inl err\<close> is the result \<^verbatim>\<open>(nil, err)\<close>.
\<close>

definition connect ::
  "('w, 'stub) env \<Rightarrow> Context \<Rightarrow> Zitadel \<Rightarrow> 'w TokenSource option \<Rightarrow> 'w DialOption list \<Rightarrow> 'w
     \<Rightarrow> (error + 'stub Client) \<times> 'w"
where
  "connect env ctx z source opts w =
     (case newConnection env ctx z source opts w of
        (Inl err, w1) \<Rightarrow> (Inl err, w1)
      | (Inr conn, w1) \<Rightarrow> (Inr (new_Client conn), w1))"

definition New ::
  "('w, 'stub) env \<Rightarrow> Context \<Rightarrow> Zitadel \<Rightarrow> 'w Option list \<Rightarrow> 'w \<Rightarrow> (error + 'stub Client) \<times> 'w"
where
  "New env ctx z opts w =
     (let options = apply_options opts zero_clientOptions in
      case initTokenSource options of
        None \<Rightarrow> connect env ctx z None (grpcDialOptions options) w
      | Some init \<Rightarrow>
          (case init ctx (Origin z) w of
             (Inl err, w1) \<Rightarrow> (Inl err, w1)
           | (Inr source, w1) \<Rightarrow> connect env ctx z source (grpcDialOptions options) w1))"

subsection \<open>The service accessors\<close>

text \<open>
  Each accessor is \<^verbatim>\<open>c.once.x.Do(func() { c.x = NewX(c.connection) }); return c.x\<close>.
  \<^verbatim>\<open>sync.Once.Do\<close> calls the function only while the guard is not done, and marks the
  guard done when the function returns, also when it panics (Go's documentation: "if f
  panics, Do considers it to have returned; future calls of Do return without calling
  f"). An accessor takes the client and the world and returns the stub it read from the
  field (\<open>Inr\<close>, \<open>None\<close> for nil) or the panic that went through it (\<open>Inl\<close>), with the
  client and the world after the call.
\<close>

type_synonym ('w, 'stub) accessor =
  "('w, 'stub) env \<Rightarrow> 'stub Client \<Rightarrow> 'w \<Rightarrow> (panic + 'stub option) \<times> 'stub Client \<times> 'w"

definition SystemService :: "('w, 'stub) accessor" where
  "SystemService env c w =
     (if once_systemService (once c) then (Inr (systemService c), c, w)
      else case NewServiceClient env SystemSvc (connection c) w of
        (Inl p, w1) \<Rightarrow> (Inl p, c\<lparr>once := (once c)\<lparr>once_systemService := True\<rparr>\<rparr>, w1)
      | (Inr stub, w1) \<Rightarrow>
          (let c1 = c\<lparr>systemService := Some stub, once := (once c)\<lparr>once_systemService := True\<rparr>\<rparr>
           in (Inr (systemService c1), c1, w1)))"

definition AdminService :: "('w, 'stub) accessor" where
  "AdminService env c w =
     (if once_adminService (once c) then (Inr (adminService c), c, w)
      else case NewServiceClient env AdminSvc (connection c) w of
        (Inl p, w1) \<Rightarrow> (Inl p, c\<lparr>once := (once c)\<lparr>once_adminService := True\<rparr>\<rparr>, w1)
      | (Inr stub, w1) \<Rightarrow>
          (let c1 = c\<lparr>adminService := Some stub, once := (once c)\<lparr>once_adminService := True\<rparr>\<rparr>
           in (Inr (adminService c1), c1, w1)))"

definition ManagementService :: "('w, 'stub) accessor" where
  "ManagementService env c w =
     (if once_managementService (once c) then (Inr (managementService c), c, w)
      else case NewServiceClient env ManagementSvc (connection c) w of
        (Inl p, w1) \<Rightarrow> (Inl p, c\<lparr>once := (once c)\<lparr>once_managementService := True\<rparr>\<rparr>, w1)
      | (Inr stub, w1) \<Rightarrow>
          (let c1 = c\<lparr>managementService := Some stub, once := (once c)\<lparr>once_managementService := True\<rparr>\<rparr>
           in (Inr (managementService c1), c1, w1)))"

definition AuthService :: "('w, 'stub) accessor" where
  "AuthService env c w =
     (if once_authService (once c) then (Inr (authService c), c, w)
      else case NewServiceClient env AuthSvc (connection c) w of
        (Inl p, w1) \<Rightarrow> (Inl p, c\<lparr>once := (once c)\<lparr>once_authService := True\<rparr>\<rparr>, w1)
      | (Inr stub, w1) \<Rightarrow>
          (let c1 = c\<lparr>authService := Some stub, once := (once c)\<lparr>once_authService := True\<rparr>\<rparr>
           in (Inr (authService c1), c1, w1)))"

definition UserService :: "('w, 'stub) accessor" where
  "UserService env c w =
     (if once_userService (once c) then (Inr (userService c), c, w)
      else case NewServiceClient env UserSvc (connection c) w of
        (Inl p, w1) \<Rightarrow> (Inl p, c\<lparr>once := (once c)\<lparr>once_userService := True\<rparr>\<rparr>, w1)
      | (Inr stub, w1) \<Rightarrow>
          (let c1 = c\<lparr>userService := Some stub, once := (once c)\<lparr>once_userService := True\<rparr>\<rparr>
           in (Inr (userService c1), c1, w1)))"

definition UserServiceV2 :: "('w, 'stub) accessor" where
  "UserServiceV2 env c w =
     (if once_userServiceV2 (once c) then (Inr (userServiceV2 c), c, w)
      else case NewServiceClient env UserSvcV2 (connection c) w of
        (Inl p, w1) \<Rightarrow> (Inl p, c\<lparr>once := (once c)\<lparr>once_userServiceV2 := True\<rparr>\<rparr>, w1)
      | (Inr stub, w1) \<Rightarrow>
          (let c1 = c\<lparr>userServiceV2 := Some stub, once := (once c)\<lparr>once_userServiceV2 := True\<rparr>\<rparr>
           in (Inr (userServiceV2 c1), c1, w1)))"

definition SettingsService :: "('w, 'stub) accessor" where
  "SettingsService env c w =
     (if once_settingsService (once c) then (Inr (settingsService c), c, w)
      else case NewServiceClient env SettingsSvc (connection c) w of
        (Inl p, w1) \<Rightarrow> (Inl p, c\<lparr>once := (once c)\<lparr>once_settingsService := True\<rparr>\<rparr>, w1)
      | (Inr stub, w1) \<Rightarrow>
          (let c1 = c\<lparr>settingsService := Some stub, once := (once c)\<lparr>once_settingsService := True\<rparr>\<rparr>
           in (Inr (settingsService c1), c1, w1)))"

definition SettingsServiceV2 :: "('w, 'stub) accessor" where
  "SettingsServiceV2 env c w =
     (if once_settingsServiceV2 (once c) then (Inr (settingsServiceV2 c), c, w)
      else case NewServiceClient env SettingsSvcV2 (connection c) w of
        (Inl p, w1) \<Rightarrow> (Inl p, c\<lparr>once := (once c)\<lparr>once_settingsServiceV2 := True\<rparr>\<rparr>, w1)
      | (Inr stub, w1) \<Rightarrow>
          (let c1 = c\<lparr>settingsServiceV2 := Some stub, once := (once c)\<lparr>once_settingsServiceV2 := True\<rparr>\<rparr>
           in (Inr (settingsServiceV2 c1), c1, w1)))"

definition SessionService :: "('w, 'stub) accessor" where
  "SessionService env c w =
     (if once_sessionService (once c) then (Inr (sessionService c), c, w)
      else case NewServiceClient env SessionSvc (connection c) w of
        (Inl p, w1) \<Rightarrow> (Inl p, c\<lparr>once := (once c)\<lparr>once_sessionService := True\<rparr>\<rparr>, w1)
      | (Inr stub, w1) \<Rightarrow>
          (let c1 = c\<lparr>sessionService := Some stub, once := (once c)\<lparr>once_sessionService := True\<rparr>\<rparr>
           in (Inr (sessionService c1), c1, w1)))"

definition SessionServiceV2 :: "('w, 'stub) accessor" where
  "SessionServiceV2 env c w =
     (if once_sessionServiceV2 (once c) then (Inr (sessionServiceV2 c), c, w)
      else case NewServiceClient env SessionSvcV2 (connection c) w of
        (Inl p, w1) \<Rightarrow> (Inl p, c\<lparr>once := (once c)\<lparr>once_sessionServiceV2 := True\<rparr>\<rparr>, w1)
      | (Inr stub, w1) \<Rightarrow>
          (let c1 = c\<lparr>sessionServiceV2 := Some stub, once := (once c)\<lparr>once_sessionServiceV2 := True\<rparr>\<rparr>
           in (Inr (sessionServiceV2 c1), c1, w1)))"

definition OIDCService :: "('w, 'stub) accessor" where
  "OIDCService env c w =
     (if once_oidcService (once c) then (Inr (oidcService c), c, w)
      else case NewServiceClient env OIDCSvc (connection c) w of
        (Inl p, w1) \<Rightarrow> (Inl p, c\<lparr>once := (once c)\<lparr>once_oidcService := True\<rparr>\<rparr>, w1)
      | (Inr stub, w1) \<Rightarrow>
          (let c1 = c\<lparr>oidcService := Some stub, once := (once c)\<lparr>once_oidcService := True\<rparr>\<rparr>
           in (Inr (oidcService c1), c1, w1)))"

definition OIDCServiceV2 :: "('w, 'stub) accessor" where
  "OIDCServiceV2 env c w =
     (if once_oidcServiceV2 (once c) then (Inr (oidcServiceV2 c), c, w)
      else case NewServiceClient env OIDCSvcV2 (connection c) w of
        (Inl p, w1) \<Rightarrow> (Inl p, c\<lparr>once := (once c)\<lparr>once_oidcServiceV2 := True\<rparr>\<rparr>, w1)
      | (Inr stub, w1) \<Rightarrow>
          (let c1 = c\<lparr>oidcServiceV2 := Some stub, once := (once c)\<lparr>once_oidcServiceV2 := True\<rparr>\<rparr>
           in (Inr (oidcServiceV2 c1), c1, w1)))"

definition OrganizationService :: "('w, 'stub) accessor" where
  "OrganizationService env c w =
     (if once_organizationService (once c) then (Inr (organizationService c), c, w)
      else case NewServiceClient env OrganizationSvc (connection c) w of
        (Inl p, w1) \<Rightarrow> (Inl p, c\<lparr>once := (once c)\<lparr>once_organizationService := True\<rparr>\<rparr>, w1)
      | (Inr stub, w1) \<Rightarrow>
          (let c1 = c\<lparr>organizationService := Some stub, once := (once c)\<lparr>once_organizationService := True\<rparr>\<rparr>
           in (Inr (organizationService c1), c1, w1)))"

definition OrganizationServiceV2 :: "('w, 'stub) accessor" where
  "OrganizationServiceV2 env c w =
     (if once_organizationServiceV2 (once c) then (Inr (organizationServiceV2 c), c, w)
      else case NewServiceClient env OrganizationSvcV2 (connection c) w of
        (Inl p, w1) \<Rightarrow> (Inl p, c\<lparr>once := (once c)\<lparr>once_organizationServiceV2 := True\<rparr>\<rparr>, w1)
      | (Inr stub, w1) \<Rightarrow>
          (let c1 = c\<lparr>organizationServiceV2 := Some stub, once := (once c)\<lparr>once_organizationServiceV2 := True\<rparr>\<rparr>
           in (Inr (organizationServiceV2 c1), c1, w1)))"

text \<open>The accessor, the guard and the field of a service, to speak of all fourteen at once.\<close>

fun accessor :: "service \<Rightarrow> ('w, 'stub) accessor" where
  "accessor SystemSvc = SystemService"
| "accessor AdminSvc = AdminService"
| "accessor ManagementSvc = ManagementService"
| "accessor AuthSvc = AuthService"
| "accessor UserSvc = UserService"
| "accessor UserSvcV2 = UserServiceV2"
| "accessor SettingsSvc = SettingsService"
| "accessor SettingsSvcV2 = SettingsServiceV2"
| "accessor SessionSvc = SessionService"
| "accessor SessionSvcV2 = SessionServiceV2"
| "accessor OIDCSvc = OIDCService"
| "accessor OIDCSvcV2 = OIDCServiceV2"
| "accessor OrganizationSvc = OrganizationService"
| "accessor OrganizationSvcV2 = OrganizationServiceV2"

fun guard_done :: "service \<Rightarrow> 'stub Client \<Rightarrow> bool" where
  "guard_done SystemSvc c = once_systemService (once c)"
| "guard_done AdminSvc c = once_adminService (once c)"
| "guard_done ManagementSvc c = once_managementService (once c)"
| "guard_done AuthSvc c = once_authService (once c)"
| "guard_done UserSvc c = once_userService (once c)"
| "guard_done UserSvcV2 c = once_userServiceV2 (once c)"
| "guard_done SettingsSvc c = once_settingsService (once c)"
| "guard_done SettingsSvcV2 c = once_settingsServiceV2 (once c)"
| "guard_done SessionSvc c = once_sessionService (once c)"
| "guard_done SessionSvcV2 c = once_sessionServiceV2 (once c)"
| "guard_done OIDCSvc c = once_oidcService (once c)"
| "guard_done OIDCSvcV2 c = once_oidcServiceV2 (once c)"
| "guard_done OrganizationSvc c = once_organizationService (once c)"
| "guard_done OrganizationSvcV2 c = once_organizationServiceV2 (once c)"

fun slot :: "service \<Rightarrow> 'stub Client \<Rightarrow> 'stub option" where
  "slot SystemSvc c = systemService c"
| "slot AdminSvc c = adminService c"
| "slot ManagementSvc c = managementService c"
| "slot AuthSvc c = authService c"
| "slot UserSvc c = userService c"
| "slot UserSvcV2 c = userServiceV2 c"
| "slot SettingsSvc c = settingsService c"
| "slot SettingsSvcV2 c = settingsServiceV2 c"
| "slot SessionSvc c = sessionService c"
| "slot SessionSvcV2 c = sessionServiceV2 c"
| "slot OIDCSvc c = oidcService c"
| "slot OIDCSvcV2 c = oidcServiceV2 c"
| "slot OrganizationSvc c = organizationService c"
| "slot OrganizationSvcV2 c = organizationServiceV2 c"

subsection \<open>The methods of the credential value\<close>

text \<open>
  Modelled from the spec: the method \<^verbatim>\<open>RequireTransportSecurity\<close> of \<^verbatim>\<open>cred\<close> is defined
  outside the files at hand. The spec: it "returns true when TLS was enabled at
  construction, false otherwise".
\<close>

definition RequireTransportSecurity :: "'w cred \<Rightarrow> bool" where
  "RequireTransportSecurity c = tls c"

text \<open>
  Modelled from the spec: the method \<^verbatim>\<open>GetRequestMetadata\<close> of \<^verbatim>\<open>cred\<close> is defined
  outside the files at hand. The spec: "if a token source is present, fetch the current
  valid token and attach it as a bearer-style authorization header. If no token source
  is present, attach no authorization header"; a failing fetch fails the call. The
  result is the list of headers to attach, as pairs of name and value.
\<close>

definition GetRequestMetadata ::
  "'w cred \<Rightarrow> Context \<Rightarrow> string list \<Rightarrow> 'w \<Rightarrow> (error + (string \<times> string) list) \<times> 'w"
where
  "GetRequestMetadata c ctx uri w =
     (case tokenSource c of
        None \<Rightarrow> (Inr [], w)
      | Some source \<Rightarrow>
          (case source w of
             (Inl err, w1) \<Rightarrow> (Inl err, w1)
           | (Inr token, w1) \<Rightarrow> (Inr [(''authorization'', ''Bearer '' @ token)], w1)))"

subsection \<open>Option lists built from the two exported constructors\<close>

text \<open>
  \<^verbatim>\<open>clientOptions\<close> is unexported, so a caller outside the package obtains an
  \<^verbatim>\<open>Option\<close> only from \<^verbatim>\<open>WithAuth\<close> or \<^verbatim>\<open>WithGRPCDialOptions\<close>. A \<open>call\<close> names one
  such use, \<open>option_of\<close> is the option it yields, and \<open>supplied\<close> lists the dial options
  of a sequence of uses in the order they were given.
\<close>

datatype 'w call =
    CallWithAuth "'w TokenSourceInitializer option"
  | CallWithGRPCDialOptions "'w DialOption list"

fun option_of :: "'w call \<Rightarrow> 'w Option" where
  "option_of (CallWithAuth init) = WithAuth init"
| "option_of (CallWithGRPCDialOptions opts) = WithGRPCDialOptions opts"

fun supplied :: "'w call list \<Rightarrow> 'w DialOption list" where
  "supplied [] = []"
| "supplied (CallWithAuth init # cs) = supplied cs"
| "supplied (CallWithGRPCDialOptions opts # cs) = opts @ supplied cs"

subsection \<open>Example inputs\<close>

text \<open>
  A world that is the list of the external calls made so far, with collaborators that
  append their name to it. A stub is told apart by the length of the list when it was
  made, so two constructions never yield the same stub.
\<close>

definition example_env :: "(string list, nat) env" where
  "example_env =
     \<lparr>transportCredentials = (\<lambda>domain t skip w. (Inr (TransportCredentials domain), w @ [''transportCredentials''])),
      DialContext = (\<lambda>ctx host opts w. (Inr 7, w @ [''DialContext''])),
      NewServiceClient = (\<lambda>svc conn w. (Inr (length w), w @ [''NewServiceClient'']))\<rparr>"

definition example_zitadel :: Zitadel where
  "example_zitadel =
     \<lparr>Origin = ''https://id.example.com'', Domain = ''id.example.com'',
      Host = ''id.example.com:443'', IsTLS = True, IsInsecureSkipVerifyTLS = False\<rparr>"

definition plain_zitadel :: Zitadel where
  "plain_zitadel =
     \<lparr>Origin = ''http://localhost:8080'', Domain = ''localhost'',
      Host = ''localhost:8080'', IsTLS = False, IsInsecureSkipVerifyTLS = False\<rparr>"

definition static_source :: "string list TokenSource" where
  "static_source = (\<lambda>w. (Inr ''tok-123'', w @ [''Token'']))"

definition static_init :: "string list TokenSourceInitializer" where
  "static_init = (\<lambda>ctx origin w. (Inr (Some static_source), w @ [''initTokenSource'']))"

definition failing_init :: "string list TokenSourceInitializer" where
  "failing_init = (\<lambda>ctx origin w. (Inl (Error ''invalid credentials''), w @ [''initTokenSource'']))"

section \<open>Properties\<close>

subsection \<open>Running the options\<close>

lemma apply_options_append:
  "apply_options (xs @ ys) c = apply_options ys (apply_options xs c)"
  by (induction xs arbitrary: c) simp_all

lemma apply_dial_options:
  "apply_options (map WithGRPCDialOptions dss) c = c\<lparr>grpcDialOptions := grpcDialOptions c @ concat dss\<rparr>"
  by (induction dss arbitrary: c) (simp_all add: WithGRPCDialOptions_def)

lemma apply_calls_dial:
  "grpcDialOptions (apply_options (map option_of cs) c) = grpcDialOptions c @ supplied cs"
proof (induction cs arbitrary: c)
  case Nil
  show ?case by simp
next
  case (Cons x cs)
  show ?case by (cases x) (simp_all add: Cons.IH WithAuth_def WithGRPCDialOptions_def)
qed

lemma apply_calls_overwritten:
  "apply_options (map option_of (mid @ CallWithAuth b # post)) (c\<lparr>initTokenSource := a\<rparr>)
     = apply_options (map option_of (mid @ CallWithAuth b # post)) c"
proof (induction mid arbitrary: c)
  case Nil
  show ?case by (simp add: WithAuth_def)
next
  case (Cons x mid)
  show ?case
  proof (cases x)
    case (CallWithAuth i)
    then show ?thesis by (simp add: WithAuth_def)
  next
    case (CallWithGRPCDialOptions ds)
    have "WithGRPCDialOptions ds (c\<lparr>initTokenSource := a\<rparr>) = (WithGRPCDialOptions ds c)\<lparr>initTokenSource := a\<rparr>"
      by (simp add: WithGRPCDialOptions_def)
    with CallWithGRPCDialOptions Cons.IH [of "WithGRPCDialOptions ds c"] show ?thesis by simp
  qed
qed

lemma options_after_auth:
  "apply_options (pre @ WithAuth init # map WithGRPCDialOptions dss) c
     = \<lparr>initTokenSource = init, grpcDialOptions = grpcDialOptions (apply_options pre c) @ concat dss\<rparr>"
  by (simp add: apply_options_append apply_dial_options WithAuth_def)

lemma options_without_auth:
  "apply_options (map WithGRPCDialOptions dss) zero_clientOptions
     = \<lparr>initTokenSource = None, grpcDialOptions = concat dss\<rparr>"
  by (simp add: apply_dial_options zero_clientOptions_def)

lemma connect_unfold:
  "connect env ctx z source opts w =
     (case transportCredentials env (Domain z) (IsTLS z) (IsInsecureSkipVerifyTLS z) w of
        (Inl err, w1) \<Rightarrow> (Inl err, w1)
      | (Inr tc, w1) \<Rightarrow>
          (case DialContext env ctx (Host z)
                  (WithTransportCredentials tc # WithPerRPCCredentials (injector z source) # opts) w1 of
             (Inl err, w2) \<Rightarrow> (Inl err, w2)
           | (Inr conn, w2) \<Rightarrow> (Inr (new_Client conn), w2)))"
  by (simp add: connect_def newConnection_def dialOptions_def split: prod.splits sum.splits)

lemma New_with_auth:
  "New env ctx z (pre @ WithAuth (Some init) # map WithGRPCDialOptions dss) w =
     (case init ctx (Origin z) w of
        (Inl err, w1) \<Rightarrow> (Inl err, w1)
      | (Inr source, w1) \<Rightarrow>
          connect env ctx z source (grpcDialOptions (apply_options pre zero_clientOptions) @ concat dss) w1)"
  by (simp add: New_def options_after_auth split: prod.splits sum.splits)

lemma New_without_auth:
  "New env ctx z (map WithGRPCDialOptions dss) w = connect env ctx z None (concat dss) w"
  by (simp add: New_def options_without_auth)

lemma supplied_append: "supplied (xs @ ys) = supplied xs @ supplied ys"
proof (induction xs)
  case Nil
  show ?case by simp
next
  case (Cons x xs)
  then show ?case by (cases x) simp_all
qed

lemma option_of_dial_calls:
  "map option_of (map CallWithGRPCDialOptions dss) = map WithGRPCDialOptions dss"
  by (induction dss) simp_all


subsection \<open>One call of an accessor\<close>

lemmas accessor_defs = SystemService_def AdminService_def ManagementService_def AuthService_def
  UserService_def UserServiceV2_def SettingsService_def SettingsServiceV2_def SessionService_def
  SessionServiceV2_def OIDCService_def OIDCServiceV2_def OrganizationService_def OrganizationServiceV2_def

lemma accessor_done:
  "guard_done svc c \<Longrightarrow> accessor svc env c w = (Inr (slot svc c), c, w)"
  by (cases svc) (simp_all add: accessor_defs)

lemma accessor_first:
  "\<not> guard_done svc c \<Longrightarrow> NewServiceClient env svc (connection c) w = (Inr stub, w1) \<Longrightarrow>
   \<exists>c1. accessor svc env c w = (Inr (Some stub), c1, w1) \<and> slot svc c1 = Some stub \<and> guard_done svc c1"
  by (cases svc) (simp_all add: accessor_defs)

lemma accessor_panic:
  "\<not> guard_done svc c \<Longrightarrow> NewServiceClient env svc (connection c) w = (Inl p, w1) \<Longrightarrow>
   \<exists>c1. accessor svc env c w = (Inl p, c1, w1) \<and> slot svc c1 = slot svc c \<and> guard_done svc c1"
  by (cases svc) (simp_all add: accessor_defs)

lemma accessor_connection:
  "connection (fst (snd (accessor svc env c w))) = connection c"
  by (cases svc) (simp_all add: accessor_defs split: prod.splits sum.splits)

lemma accessor_frame:
  "svc' \<noteq> svc \<Longrightarrow>
     slot svc' (fst (snd (accessor svc env c w))) = slot svc' c \<and>
     guard_done svc' (fst (snd (accessor svc env c w))) = guard_done svc' c"
  by (cases svc; cases svc'; simp add: accessor_defs split: prod.splits sum.splits)

lemma new_Client_fresh:
  "\<not> guard_done svc (new_Client conn) \<and> slot svc (new_Client conn) = None \<and> connection (new_Client conn) = conn"
  by (cases svc) (simp_all add: new_Client_def zero_clientOnce_def)

lemma New_result:
  "New env ctx z opts w = (Inr c, w1) \<Longrightarrow> \<exists>conn. c = new_Client conn"
  by (auto simp add: New_def connect_def Let_def split: option.splits prod.splits sum.splits)

subsection \<open>Construction\<close>

text \<open>
  Claim C3. When the last \<^verbatim>\<open>WithAuth\<close> of the option list installed an initializer and
  that initializer returns an error, \<^verbatim>\<open>New\<close> returns no client and that error. The
  world it leaves is the one the initializer left, whatever the collaborators \<open>env\<close>
  are: neither \<^verbatim>\<open>transportCredentials\<close> nor \<^verbatim>\<open>grpc.DialContext\<close> was called, so no
  connection was built. The options before the \<^verbatim>\<open>WithAuth\<close> are arbitrary; those after
  it are dial options.
\<close>

theorem New_auth_init_error:
  assumes "init ctx (Origin z) w = (Inl err, w1)"
  shows "New env ctx z (pre @ WithAuth (Some init) # map WithGRPCDialOptions dss) w = (Inl err, w1)"
  using assms by (simp add: New_with_auth)

text \<open>
  At an initializer that fails: the only external call on record is the initializer's.
\<close>

theorem New_auth_init_error_witness:
  "failing_init ''ctx'' (Origin example_zitadel) [] = (Inl (Error ''invalid credentials''), [''initTokenSource''])
   \<and> New example_env ''ctx'' example_zitadel
         ([WithGRPCDialOptions [CallerDialOption ''A'']] @ WithAuth (Some failing_init) # map WithGRPCDialOptions [])
         []
       = (Inl (Error ''invalid credentials''), [''initTokenSource''])"
proof -
  have h: "failing_init ''ctx'' (Origin example_zitadel) []
             = (Inl (Error ''invalid credentials''), [''initTokenSource''])"
    by (simp add: failing_init_def)
  from h have "New example_env ''ctx'' example_zitadel
         ([WithGRPCDialOptions [CallerDialOption ''A'']] @ WithAuth (Some failing_init) # map WithGRPCDialOptions [])
         []
       = (Inl (Error ''invalid credentials''), [''initTokenSource''])"
    by (rule New_auth_init_error)
  with h show ?thesis by blast
qed

text \<open>
  Claim C7. With an initializer installed by \<^verbatim>\<open>WithAuth\<close>, \<^verbatim>\<open>New\<close> is: the initializer,
  applied once to the context and the issuer's origin in the world \<^verbatim>\<open>New\<close> started in;
  then, if it returned no error, \<^verbatim>\<open>transportCredentials\<close> and \<^verbatim>\<open>grpc.DialContext\<close> in
  the world the initializer left, the dial options carrying a credential value whose
  token source is the one the initializer returned. The equation holds for every
  initializer and every world type, so the initializer is called once and before the
  connection is built.
\<close>

theorem New_calls_initializer_once_before_connecting:
  "New env ctx z (pre @ WithAuth (Some init) # map WithGRPCDialOptions dss) w =
     (case init ctx (Origin z) w of
        (Inl err, w1) \<Rightarrow> (Inl err, w1)
      | (Inr source, w1) \<Rightarrow>
          (case transportCredentials env (Domain z) (IsTLS z) (IsInsecureSkipVerifyTLS z) w1 of
             (Inl err, w2) \<Rightarrow> (Inl err, w2)
           | (Inr tc, w2) \<Rightarrow>
               (case DialContext env ctx (Host z)
                       (WithTransportCredentials tc
                        # WithPerRPCCredentials \<lparr>tls = IsTLS z, tokenSource = source\<rparr>
                        # grpcDialOptions (apply_options pre zero_clientOptions) @ concat dss) w2 of
                  (Inl err, w3) \<Rightarrow> (Inl err, w3)
                | (Inr conn, w3) \<Rightarrow> (Inr (new_Client conn), w3))))"
  by (simp add: New_with_auth connect_unfold injector_def split: prod.splits sum.splits)

text \<open>
  With collaborators that record their calls, the record after \<^verbatim>\<open>New\<close> is the
  initializer once, then the two steps of the connection.
\<close>

theorem New_calls_initializer_once_before_connecting_witness:
  "New example_env ''ctx'' example_zitadel [WithAuth (Some static_init)] []
     = (Inr (new_Client 7), [''initTokenSource'', ''transportCredentials'', ''DialContext''])"
  using New_calls_initializer_once_before_connecting
          [of example_env "''ctx''" example_zitadel "[]" static_init "[]" "[]"]
  by (simp add: static_init_def example_env_def)

text \<open>
  Claim C4. For every option list, each path of \<^verbatim>\<open>New\<close> that reaches
  \<^verbatim>\<open>grpc.DialContext\<close> passes the credential value as the second dial option, with a
  token source or with none. When the options are dial options only (no \<^verbatim>\<open>WithAuth\<close>),
  no initializer is called, the credential value holds no token source, and asked for
  the metadata of a call it attaches no header and leaves the world as it was.
\<close>

theorem New_always_installs_injector:
  "New env ctx z opts w =
     (let options = apply_options opts zero_clientOptions;
          dial = (\<lambda>source w0.
            case transportCredentials env (Domain z) (IsTLS z) (IsInsecureSkipVerifyTLS z) w0 of
              (Inl err, w1) \<Rightarrow> (Inl err, w1)
            | (Inr tc, w1) \<Rightarrow>
                (case DialContext env ctx (Host z)
                        (WithTransportCredentials tc # WithPerRPCCredentials (injector z source)
                         # grpcDialOptions options) w1 of
                   (Inl err, w2) \<Rightarrow> (Inl err, w2)
                 | (Inr conn, w2) \<Rightarrow> (Inr (new_Client conn), w2)))
      in case initTokenSource options of
           None \<Rightarrow> dial None w
         | Some init \<Rightarrow>
             (case init ctx (Origin z) w of
                (Inl err, w0) \<Rightarrow> (Inl err, w0)
              | (Inr source, w0) \<Rightarrow> dial source w0))
   \<and> New env ctx z (map WithGRPCDialOptions dss) w =
       (case transportCredentials env (Domain z) (IsTLS z) (IsInsecureSkipVerifyTLS z) w of
          (Inl err, w1) \<Rightarrow> (Inl err, w1)
        | (Inr tc, w1) \<Rightarrow>
            (case DialContext env ctx (Host z)
                    (WithTransportCredentials tc # WithPerRPCCredentials (injector z None)
                     # concat dss) w1 of
               (Inl err, w2) \<Rightarrow> (Inl err, w2)
             | (Inr conn, w2) \<Rightarrow> (Inr (new_Client conn), w2)))
   \<and> tokenSource (injector z None) = None
   \<and> GetRequestMetadata (injector z None) ctx' uri w' = (Inr [], w')"
proof -
  have a: "New env ctx z opts w =
     (let options = apply_options opts zero_clientOptions;
          dial = (\<lambda>source w0.
            case transportCredentials env (Domain z) (IsTLS z) (IsInsecureSkipVerifyTLS z) w0 of
              (Inl err, w1) \<Rightarrow> (Inl err, w1)
            | (Inr tc, w1) \<Rightarrow>
                (case DialContext env ctx (Host z)
                        (WithTransportCredentials tc # WithPerRPCCredentials (injector z source)
                         # grpcDialOptions options) w1 of
                   (Inl err, w2) \<Rightarrow> (Inl err, w2)
                 | (Inr conn, w2) \<Rightarrow> (Inr (new_Client conn), w2)))
      in case initTokenSource options of
           None \<Rightarrow> dial None w
         | Some init \<Rightarrow>
             (case init ctx (Origin z) w of
                (Inl err, w0) \<Rightarrow> (Inl err, w0)
              | (Inr source, w0) \<Rightarrow> dial source w0))"
    by (simp add: New_def Let_def connect_unfold split: option.splits prod.splits sum.splits)
  have b: "New env ctx z (map WithGRPCDialOptions dss) w =
       (case transportCredentials env (Domain z) (IsTLS z) (IsInsecureSkipVerifyTLS z) w of
          (Inl err, w1) \<Rightarrow> (Inl err, w1)
        | (Inr tc, w1) \<Rightarrow>
            (case DialContext env ctx (Host z)
                    (WithTransportCredentials tc # WithPerRPCCredentials (injector z None)
                     # concat dss) w1 of
               (Inl err, w2) \<Rightarrow> (Inl err, w2)
             | (Inr conn, w2) \<Rightarrow> (Inr (new_Client conn), w2)))"
    by (simp add: New_without_auth connect_unfold)
  have c: "tokenSource (injector z None) = None"
    by (simp add: injector_def)
  have d: "GetRequestMetadata (injector z None) ctx' uri w' = (Inr [], w')"
    by (simp add: GetRequestMetadata_def injector_def)
  from a b c d show ?thesis by blast
qed

text \<open>
  Claim C5. The credential value that \<^verbatim>\<open>newConnection\<close> installs requires transport
  security exactly when the issuer is on TLS, and two constructions with the same TLS
  flag agree on it whatever their token sources are.
\<close>

theorem RequireTransportSecurity_reflects_tls_only:
  "dialOptions z tc source opts ! 1 = WithPerRPCCredentials (injector z source)
   \<and> RequireTransportSecurity (injector z source) = IsTLS z
   \<and> (IsTLS z = IsTLS z' \<longrightarrow>
        RequireTransportSecurity (injector z source) = RequireTransportSecurity (injector z' source'))"
  by (simp add: dialOptions_def RequireTransportSecurity_def injector_def)

text \<open>
  Two issuers on TLS, one construction with a token source and one without, agree; an
  issuer on TLS requires transport security and a plain one does not.
\<close>

theorem RequireTransportSecurity_reflects_tls_only_witness:
  "IsTLS example_zitadel = IsTLS (example_zitadel\<lparr>Host := ''id.example.com:8443''\<rparr>)
   \<and> RequireTransportSecurity (injector example_zitadel (Some static_source))
       = RequireTransportSecurity (injector (example_zitadel\<lparr>Host := ''id.example.com:8443''\<rparr>) None)
   \<and> RequireTransportSecurity (injector example_zitadel (Some static_source)) = True
   \<and> RequireTransportSecurity (injector plain_zitadel (Some static_source)) = False"
proof -
  let ?z' = "example_zitadel\<lparr>Host := ''id.example.com:8443''\<rparr>"
  have h: "IsTLS example_zitadel = IsTLS ?z'"
    by simp
  have t: "IsTLS example_zitadel = True" "IsTLS plain_zitadel = False"
    by (simp_all add: example_zitadel_def plain_zitadel_def)
  note a = RequireTransportSecurity_reflects_tls_only
             [of example_zitadel "TransportCredentials ''t''" "Some static_source" "[]" ?z' None]
  note b = RequireTransportSecurity_reflects_tls_only
             [of plain_zitadel "TransportCredentials ''t''" "Some static_source" "[]" plain_zitadel None]
  from a h have "RequireTransportSecurity (injector example_zitadel (Some static_source))
                   = RequireTransportSecurity (injector ?z' None)"
    by blast
  moreover from a t have "RequireTransportSecurity (injector example_zitadel (Some static_source)) = True"
    by blast
  moreover from b t have "RequireTransportSecurity (injector plain_zitadel (Some static_source)) = False"
    by blast
  ultimately show ?thesis using h by blast
qed

text \<open>
  Claim C6. In any sequence of uses of the two exported constructors, a use of
  \<^verbatim>\<open>WithGRPCDialOptions\<close> with \<open>A\<close> and a later one with \<open>B\<close> leave both in the
  effective dial options, \<open>A\<close> before \<open>B\<close>, after what was there and among what the
  other uses supplied; and \<^verbatim>\<open>New\<close> with the two options dials with \<open>A @ B\<close> after
  its own two options.
\<close>

theorem WithGRPCDialOptions_accumulates:
  "grpcDialOptions (apply_options
       (map option_of (pre @ CallWithGRPCDialOptions A # mid @ CallWithGRPCDialOptions B # post)) c)
     = grpcDialOptions c @ supplied pre @ A @ supplied mid @ B @ supplied post
   \<and> New env ctx z [WithGRPCDialOptions A, WithGRPCDialOptions B] w =
       (case transportCredentials env (Domain z) (IsTLS z) (IsInsecureSkipVerifyTLS z) w of
          (Inl err, w1) \<Rightarrow> (Inl err, w1)
        | (Inr tc, w1) \<Rightarrow>
            (case DialContext env ctx (Host z)
                    (WithTransportCredentials tc # WithPerRPCCredentials (injector z None) # A @ B) w1 of
               (Inl err, w2) \<Rightarrow> (Inl err, w2)
             | (Inr conn, w2) \<Rightarrow> (Inr (new_Client conn), w2)))"
proof -
  have a: "grpcDialOptions (apply_options
       (map option_of (pre @ CallWithGRPCDialOptions A # mid @ CallWithGRPCDialOptions B # post)) c)
     = grpcDialOptions c @ supplied pre @ A @ supplied mid @ B @ supplied post"
    by (simp only: apply_calls_dial supplied_append supplied.simps)
  have "New env ctx z (map WithGRPCDialOptions [A, B]) w = connect env ctx z None (concat [A, B]) w"
    by (rule New_without_auth)
  then have b: "New env ctx z [WithGRPCDialOptions A, WithGRPCDialOptions B] w =
       (case transportCredentials env (Domain z) (IsTLS z) (IsInsecureSkipVerifyTLS z) w of
          (Inl err, w1) \<Rightarrow> (Inl err, w1)
        | (Inr tc, w1) \<Rightarrow>
            (case DialContext env ctx (Host z)
                    (WithTransportCredentials tc # WithPerRPCCredentials (injector z None) # A @ B) w1 of
               (Inl err, w2) \<Rightarrow> (Inl err, w2)
             | (Inr conn, w2) \<Rightarrow> (Inr (new_Client conn), w2)))"
    by (simp add: connect_unfold)
  from a b show ?thesis by blast
qed

text \<open>
  Claim C10. Of two uses of \<^verbatim>\<open>WithAuth\<close> the later one decides: followed by dial
  options only, its initializer is the stored one; and \<^verbatim>\<open>New\<close> behaves as if the
  earlier use had not been made. The dial options of the same sequence are all kept.
\<close>

theorem WithAuth_last_wins:
  "initTokenSource (apply_options
       (map option_of (pre @ CallWithAuth a # mid @ CallWithAuth b # map CallWithGRPCDialOptions dss)) c) = b
   \<and> New env ctx z (map option_of (pre @ CallWithAuth a # mid @ CallWithAuth b # post)) w
       = New env ctx z (map option_of (pre @ mid @ CallWithAuth b # post)) w
   \<and> grpcDialOptions (apply_options
         (map option_of (pre @ CallWithAuth a # mid @ CallWithAuth b # post)) c)
       = grpcDialOptions c @ supplied pre @ supplied mid @ supplied post"
proof -
  have "map option_of (pre @ CallWithAuth a # mid @ CallWithAuth b # map CallWithGRPCDialOptions dss)
          = (map option_of pre @ WithAuth a # map option_of mid) @ WithAuth b # map WithGRPCDialOptions dss"
    by (simp add: option_of_dial_calls)
  then have x: "initTokenSource (apply_options
       (map option_of (pre @ CallWithAuth a # mid @ CallWithAuth b # map CallWithGRPCDialOptions dss)) c) = b"
    by (simp only: options_after_auth) simp
  have "apply_options (map option_of (pre @ CallWithAuth a # mid @ CallWithAuth b # post)) c0
          = apply_options (map option_of (pre @ mid @ CallWithAuth b # post)) c0" for c0 :: "'a clientOptions"
  proof -
    have "apply_options (map option_of (pre @ CallWithAuth a # mid @ CallWithAuth b # post)) c0
            = apply_options (map option_of (mid @ CallWithAuth b # post))
                ((apply_options (map option_of pre) c0)\<lparr>initTokenSource := a\<rparr>)"
      by (simp add: apply_options_append WithAuth_def)
    also have "\<dots> = apply_options (map option_of (mid @ CallWithAuth b # post))
                       (apply_options (map option_of pre) c0)"
      by (rule apply_calls_overwritten)
    also have "\<dots> = apply_options (map option_of (pre @ mid @ CallWithAuth b # post)) c0"
      by (simp add: apply_options_append)
    finally show ?thesis .
  qed
  then have y: "New env ctx z (map option_of (pre @ CallWithAuth a # mid @ CallWithAuth b # post)) w
       = New env ctx z (map option_of (pre @ mid @ CallWithAuth b # post)) w"
    by (simp only: New_def)
  have z: "grpcDialOptions (apply_options
         (map option_of (pre @ CallWithAuth a # mid @ CallWithAuth b # post)) c)
       = grpcDialOptions c @ supplied pre @ supplied mid @ supplied post"
    by (simp only: apply_calls_dial supplied_append supplied.simps)
  from x y z show ?thesis by blast
qed

subsection \<open>The registry\<close>

text \<open>
  Claim C2. A client that \<^verbatim>\<open>New\<close> returned has no guard done and no stub stored. The
  first call of an accessor (its guard not done) whose constructor returns a stub calls
  that constructor on the client's connection, stores the stub in the accessor's field
  and returns it; every later call, with whatever constructors and in whatever world,
  returns that same stub and changes neither the client nor the world, so the
  constructor ran on the first call only.
\<close>

theorem accessor_constructs_once_then_returns_stored:
  fixes env :: "('w, 'stub) env"
  shows "(New env ctx z opts w0 = (Inr c, w0') \<longrightarrow> \<not> guard_done svc c \<and> slot svc c = None)
       \<and> (\<not> guard_done svc c \<and> NewServiceClient env svc (connection c) w = (Inr stub, w1) \<longrightarrow>
            (\<exists>c1. accessor svc env c w = (Inr (Some stub), c1, w1)
                  \<and> slot svc c1 = Some stub
                  \<and> connection c1 = connection c
                  \<and> (\<forall>(env2 :: ('w, 'stub) env) w2.
                        accessor svc env2 c1 w2 = (Inr (Some stub), c1, w2))))"
proof (intro conjI impI)
  assume "New env ctx z opts w0 = (Inr c, w0')"
  then have "\<exists>conn. c = new_Client conn"
    by (rule New_result)
  then obtain conn where "c = new_Client conn" ..
  then show "\<not> guard_done svc c" and "slot svc c = None"
    by (simp_all add: new_Client_fresh)
next
  assume first: "\<not> guard_done svc c \<and> NewServiceClient env svc (connection c) w = (Inr stub, w1)"
  then obtain c1 where
    c1: "accessor svc env c w = (Inr (Some stub), c1, w1)" "slot svc c1 = Some stub" "guard_done svc c1"
    using accessor_first [of svc c env w stub w1] by blast
  have "connection (fst (snd (accessor svc env c w))) = connection c"
    by (rule accessor_connection)
  with c1 have conn: "connection c1 = connection c"
    by simp
  have later: "accessor svc env2 c1 w2 = (Inr (Some stub), c1, w2)" for env2 :: "('w, 'stub) env" and w2
    using accessor_done [OF c1(3), of env2 w2] c1(2) by simp
  show "\<exists>c1. accessor svc env c w = (Inr (Some stub), c1, w1)
              \<and> slot svc c1 = Some stub
              \<and> connection c1 = connection c
              \<and> (\<forall>(env2 :: ('w, 'stub) env) w2. accessor svc env2 c1 w2 = (Inr (Some stub), c1, w2))"
    by (rule exI [of _ c1]) (simp add: c1 conn later)
qed

text \<open>
  On a client fresh from \<^verbatim>\<open>New\<close>, with constructors that record their calls.
\<close>

theorem accessor_constructs_once_then_returns_stored_witness:
  "New example_env ''ctx'' example_zitadel [] []
     = (Inr (new_Client 7), [''transportCredentials'', ''DialContext''])
   \<and> \<not> guard_done AdminSvc (new_Client 7 :: nat Client)
   \<and> NewServiceClient example_env AdminSvc (connection (new_Client 7 :: nat Client))
         [''transportCredentials'', ''DialContext'']
       = (Inr 2, [''transportCredentials'', ''DialContext'', ''NewServiceClient''])
   \<and> (\<exists>c1. accessor AdminSvc example_env (new_Client 7) [''transportCredentials'', ''DialContext'']
               = (Inr (Some 2), c1, [''transportCredentials'', ''DialContext'', ''NewServiceClient''])
             \<and> slot AdminSvc c1 = Some 2
             \<and> connection c1 = connection (new_Client 7 :: nat Client)
             \<and> (\<forall>env2 w2. accessor AdminSvc (env2 :: (string list, nat) env) c1 w2 = (Inr (Some 2), c1, w2)))"
proof -
  have n: "New example_env ''ctx'' example_zitadel [] []
             = (Inr (new_Client 7), [''transportCredentials'', ''DialContext''])"
    by (simp add: New_def zero_clientOptions_def connect_unfold example_env_def)
  have k: "NewServiceClient example_env AdminSvc (connection (new_Client 7 :: nat Client))
             [''transportCredentials'', ''DialContext'']
           = (Inr 2, [''transportCredentials'', ''DialContext'', ''NewServiceClient''])"
    by (simp add: example_env_def)
  note t = accessor_constructs_once_then_returns_stored
             [of example_env "''ctx''" example_zitadel "[]" "[]" "new_Client 7"
                 "[''transportCredentials'', ''DialContext'']" AdminSvc
                 "[''transportCredentials'', ''DialContext'']" 2
                 "[''transportCredentials'', ''DialContext'', ''NewServiceClient'']"]
  from t n have g: "\<not> guard_done AdminSvc (new_Client 7 :: nat Client)"
    by blast
  from t g k have "\<exists>c1. accessor AdminSvc example_env (new_Client 7) [''transportCredentials'', ''DialContext'']
               = (Inr (Some 2), c1, [''transportCredentials'', ''DialContext'', ''NewServiceClient''])
             \<and> slot AdminSvc c1 = Some 2
             \<and> connection c1 = connection (new_Client 7 :: nat Client)
             \<and> (\<forall>env2 w2. accessor AdminSvc (env2 :: (string list, nat) env) c1 w2 = (Inr (Some 2), c1, w2))"
    by blast
  with n g k show ?thesis by blast
qed

text \<open>
  Claim C9. A call of an accessor leaves the connection and the guard and field of
  every other service as they were. If its own guard was done it changes nothing at
  all; otherwise it calls the constructor once, on the client's connection, marks the
  guard, and stores the stub when there is one.
\<close>

theorem accessor_changes_only_its_slot:
  assumes "accessor svc env c w = (r, c1, w1)"
  shows "connection c1 = connection c
       \<and> (\<forall>svc'. svc' \<noteq> svc \<longrightarrow> slot svc' c1 = slot svc' c \<and> guard_done svc' c1 = guard_done svc' c)
       \<and> (if guard_done svc c then c1 = c \<and> w1 = w \<and> r = Inr (slot svc c)
          else guard_done svc c1 \<and>
            (case NewServiceClient env svc (connection c) w of
               (Inl p, w2) \<Rightarrow> r = Inl p \<and> w1 = w2 \<and> slot svc c1 = slot svc c
             | (Inr stub, w2) \<Rightarrow> r = Inr (Some stub) \<and> w1 = w2 \<and> slot svc c1 = Some stub))"
proof -
  from assms have c1: "c1 = fst (snd (accessor svc env c w))"
    by simp
  have a: "connection c1 = connection c"
    unfolding c1 by (rule accessor_connection)
  have b: "slot svc' c1 = slot svc' c \<and> guard_done svc' c1 = guard_done svc' c" if "svc' \<noteq> svc" for svc'
    unfolding c1 using that by (rule accessor_frame)
  have d: "c1 = c \<and> w1 = w \<and> r = Inr (slot svc c)" if "guard_done svc c"
    using accessor_done [OF that, of env w] assms by simp
  have e: "guard_done svc c1 \<and>
            (case NewServiceClient env svc (connection c) w of
               (Inl p, w2) \<Rightarrow> r = Inl p \<and> w1 = w2 \<and> slot svc c1 = slot svc c
             | (Inr stub, w2) \<Rightarrow> r = Inr (Some stub) \<and> w1 = w2 \<and> slot svc c1 = Some stub)"
    if nd: "\<not> guard_done svc c"
  proof (cases "NewServiceClient env svc (connection c) w")
    case (Pair x w2)
    show ?thesis
    proof (cases x)
      case (Inl p)
      with Pair accessor_panic [OF nd, of env w p w2] assms show ?thesis by auto
    next
      case (Inr stub)
      with Pair accessor_first [OF nd, of env w stub w2] assms show ?thesis by auto
    qed
  qed
  from a b d e show ?thesis by simp
qed

text \<open>
  The first call of the Admin accessor on a fresh client over connection 7.
\<close>

theorem accessor_changes_only_its_slot_witness:
  "accessor AdminSvc example_env (new_Client 7) []
     = (Inr (Some 0),
        (new_Client 7)\<lparr>adminService := Some 0, once := zero_clientOnce\<lparr>once_adminService := True\<rparr>\<rparr>,
        [''NewServiceClient''])
   \<and> SystemSvc \<noteq> AdminSvc
   \<and> \<not> guard_done AdminSvc (new_Client 7 :: nat Client)
   \<and> connection ((new_Client 7)\<lparr>adminService := Some (0::nat), once := zero_clientOnce\<lparr>once_adminService := True\<rparr>\<rparr>) = 7
   \<and> slot SystemSvc ((new_Client 7)\<lparr>adminService := Some (0::nat), once := zero_clientOnce\<lparr>once_adminService := True\<rparr>\<rparr>) = None
   \<and> guard_done AdminSvc ((new_Client 7)\<lparr>adminService := Some (0::nat), once := zero_clientOnce\<lparr>once_adminService := True\<rparr>\<rparr>)"
proof -
  let ?c1 = "(new_Client 7)\<lparr>adminService := Some (0::nat), once := zero_clientOnce\<lparr>once_adminService := True\<rparr>\<rparr>"
  have run: "accessor AdminSvc example_env (new_Client 7) [] = (Inr (Some 0), ?c1, [''NewServiceClient''])"
    by (simp add: AdminService_def new_Client_def zero_clientOnce_def example_env_def)
  have ne: "SystemSvc \<noteq> AdminSvc"
    by simp
  have nd: "\<not> guard_done AdminSvc (new_Client 7 :: nat Client)"
    by (simp add: new_Client_def zero_clientOnce_def)
  note t = accessor_changes_only_its_slot [OF run]
  from t have "connection ?c1 = connection (new_Client 7 :: nat Client)"
    by blast
  then have x: "connection ?c1 = 7"
    by (simp add: new_Client_def)
  from t ne have "slot SystemSvc ?c1 = slot SystemSvc (new_Client 7 :: nat Client)"
    by blast
  then have y: "slot SystemSvc ?c1 = None"
    by (simp add: new_Client_def)
  from t nd have z: "guard_done AdminSvc ?c1"
    by simp
  from run ne nd x y z show ?thesis by blast
qed

end
